theory Spec2Isabelle
  imports Main "HOL-Library.Word"
begin

unbundle bit_operations_syntax

section \<open>The program \<^verbatim>\<open>samples/entry_point.c\<close>\<close>

text \<open>
  The sample maps the page that holds a string of x86-64 machine code executable and
  jumps into it. The embedding follows the C text of \<^verbatim>\<open>main\<close> statement by statement.
  The target is the LP64 platform the payload is written for: \<^verbatim>\<open>size_t\<close> and pointers
  are 64 bits wide, \<^verbatim>\<open>int\<close> is 32 bits wide and \<^verbatim>\<open>char\<close> is 8 bits wide.
\<close>

type_synonym size_t = "64 word"
type_synonym c_int = "32 word"
type_synonym byte = "8 word"

subsection \<open>Static data\<close>

text \<open>\<^verbatim>\<open>const int some_constant = 29;\<close>\<close>

definition some_constant :: c_int where
  "some_constant = 29"

text \<open>
  The string literal of line 9 is a sequence of ten hexadecimal escapes,
  \<^verbatim>\<open>\x48 \x31 \xff \xB8 \x3C \x00 \x00 \x00 \x0F \x05\<close>. An element of a literal is
  either a plain character or a hexadecimal escape, which carries the digits written
  after \<^verbatim>\<open>\x\<close> (C takes the longest run of hexadecimal digits; here every escape is
  followed by a backslash or by the closing quote, so each run has two digits).
\<close>

datatype c_char = Plain char | HexEsc string

definition instructions_literal :: "c_char list" where
  "instructions_literal =
     [HexEsc ''48'', HexEsc ''31'', HexEsc ''ff'', HexEsc ''B8'', HexEsc ''3C'',
      HexEsc ''00'', HexEsc ''00'', HexEsc ''00'', HexEsc ''0F'', HexEsc ''05'']"

text \<open>The value of one hexadecimal digit, in either case; \<open>None\<close> for any other character.\<close>

definition hex_digit :: "char \<Rightarrow> nat option" where
  "hex_digit c =
     (let n = (of_char c :: nat) in
      if 48 \<le> n \<and> n \<le> 57 then Some (n - 48)
      else if 65 \<le> n \<and> n \<le> 70 then Some (n - 55)
      else if 97 \<le> n \<and> n \<le> 102 then Some (n - 87)
      else None)"

text \<open>The digits of an escape, most significant first, folded into a number.\<close>

fun hex_value :: "nat \<Rightarrow> string \<Rightarrow> nat option" where
  "hex_value acc [] = Some acc"
| "hex_value acc (c # cs) =
     (case hex_digit c of
        None \<Rightarrow> None
      | Some d \<Rightarrow> hex_value (16 * acc + d) cs)"

text \<open>
  The byte an element of a literal denotes. An escape without digits, with a character
  that is no digit, or with a value that does not fit a \<^verbatim>\<open>char\<close> is rejected by the
  compiler: \<open>None\<close>.
\<close>

fun c_char_byte :: "c_char \<Rightarrow> byte option" where
  "c_char_byte (Plain c) = Some (of_char c)"
| "c_char_byte (HexEsc ds) =
     (if ds = [] then None
      else case hex_value 0 ds of
             None \<Rightarrow> None
           | Some v \<Rightarrow> if v < 256 then Some (of_nat v) else None)"

fun literal_bytes :: "c_char list \<Rightarrow> byte list option" where
  "literal_bytes [] = Some []"
| "literal_bytes (x # xs) =
     (case c_char_byte x of
        None \<Rightarrow> None
      | Some b \<Rightarrow> (case literal_bytes xs of
                     None \<Rightarrow> None
                   | Some bs \<Rightarrow> Some (b # bs)))"

text \<open>
  The array a string literal is stored in: its bytes followed by the terminating zero
  that C appends.
\<close>

definition literal_object :: "c_char list \<Rightarrow> byte list option" where
  "literal_object lit = map_option (\<lambda>bs. bs @ [0]) (literal_bytes lit)"

subsection \<open>Process state and environment\<close>

text \<open>
  The calls the program makes are recorded as a trace: every call of
  \<^verbatim>\<open>printf\<close> with its format and its arguments (the rendering of \<^verbatim>\<open>%p\<close> and
  \<^verbatim>\<open>%s\<close> is the C library's), every call of \<^verbatim>\<open>mprotect\<close> with its three arguments,
  and every call through the function pointer with the address called. What reaches
  standard output is kept apart from the calls, in the state of the stream below.
\<close>

datatype printf_arg = Ptr size_t | Str string

datatype event =
    Printf string "printf_arg list"
  | Mprotect size_t size_t c_int
  | Call size_t

text \<open>
  What the called bytes do with the control they receive: they return to the caller,
  they end the process with a status, or neither (a fault or an endless loop).
\<close>

datatype call_outcome = Returns | Exits c_int | NoReturn

text \<open>
  An \<open>Exits\<close> is the process ending inside the called bytes, by the exit system call
  as the bytes of line 9 make it (\<^verbatim>\<open>xor rdi,rdi; mov eax,60; syscall\<close>): the kernel ends
  the process at once and the C library's \<^verbatim>\<open>exit\<close>, which would flush the open
  streams, never runs.
\<close>

text \<open>
  The stream \<^verbatim>\<open>stdout\<close>. \<^verbatim>\<open>main\<close> never calls \<^verbatim>\<open>setvbuf\<close> or \<^verbatim>\<open>fflush\<close>, so the
  stream keeps the buffering the C library opens it with: fully buffered when standard
  output is not an interactive device (a pipe or a file), line buffered (or unbuffered)
  when it is a terminal. An output is kept as the format and the arguments of the call
  that made it. What \<^verbatim>\<open>printf\<close> has formatted waits in the buffer of the stream until
  it is written to the file descriptor; only what has been written is printed.
\<close>

datatype buf_mode = Unbuffered | LineBuffered | FullyBuffered

type_synonym out_item = "string \<times> printf_arg list"

text \<open>
  The address space as the program's own statements leave it: the byte stored at every
  address, and the protection flags in force at every address. What the called bytes do
  to the address space is theirs and is not tracked.
\<close>

record machine =
  memory :: "size_t \<Rightarrow> byte"
  protection :: "size_t \<Rightarrow> c_int"

record proc =
  trace :: "event list"
  stdout_buf :: "out_item list"
  written :: "out_item list"
  errno :: c_int
  mach :: machine

text \<open>
  Everything \<^verbatim>\<open>main\<close> takes from its platform: the address of \<^verbatim>\<open>main\<close> itself, the
  value of the pointer \<^verbatim>\<open>instructions\<close> (the address of the literal's array), the two
  flag constants of \<^verbatim>\<open><sys/mman.h>\<close>, the answer of the operating system to
  \<^verbatim>\<open>mprotect\<close> (the value returned and the \<^verbatim>\<open>errno\<close> it leaves on failure),
  \<^verbatim>\<open>strerror\<close>, the behaviour of the bytes at \<^verbatim>\<open>instructions\<close> when called, and
  the buffering of \<^verbatim>\<open>stdout\<close>.
\<close>

record env =
  main_addr :: size_t
  instructions :: size_t
  PROT_READ :: c_int
  PROT_EXEC :: c_int
  sys_mprotect :: "size_t \<Rightarrow> size_t \<Rightarrow> c_int \<Rightarrow> c_int \<times> c_int"
  strerror :: "c_int \<Rightarrow> string"
  payload :: call_outcome
  stdout_mode :: buf_mode

subsection \<open>Library and system calls\<close>

text \<open>Flushing \<^verbatim>\<open>stdout\<close>: what waits in the buffer is written, in order.\<close>

definition fflush :: "proc \<Rightarrow> proc" where
  "fflush s = s\<lparr>written := written s @ stdout_buf s, stdout_buf := []\<rparr>"

definition ends_line :: "string \<Rightarrow> bool" where
  "ends_line fmt = (fmt \<noteq> [] \<and> last fmt = CHR ''\<newline>'')"

text \<open>
  \<^verbatim>\<open>printf\<close>: the call is recorded and its output is put into the buffer of
  \<^verbatim>\<open>stdout\<close>. An unbuffered stream writes it at once; a line-buffered stream writes
  when the output ends a line, which every format of this program does (an output that
  does not end a line waits); a fully buffered stream writes only when its buffer is
  full, which the output of this program, less than 256 bytes in all, never makes it.
\<close>

definition printf :: "env \<Rightarrow> string \<Rightarrow> printf_arg list \<Rightarrow> proc \<Rightarrow> proc" where
  "printf e fmt args s =
     (let s' = s\<lparr>trace := trace s @ [Printf fmt args],
                 stdout_buf := stdout_buf s @ [(fmt, args)]\<rparr>
      in case stdout_mode e of
           Unbuffered \<Rightarrow> fflush s'
         | LineBuffered \<Rightarrow> if ends_line fmt then fflush s' else s'
         | FullyBuffered \<Rightarrow> s')"

text \<open>
  A return from \<^verbatim>\<open>main\<close> with a status is a call of the C library's \<^verbatim>\<open>exit\<close> with
  it: \<^verbatim>\<open>stdout\<close> is flushed and the process ends with the status.
\<close>

definition exit :: "c_int \<Rightarrow> proc \<Rightarrow> c_int option \<times> proc" where
  "exit status s = (Some status, fflush s)"

text \<open>
  The effect of a protection change that the operating system grants: every address of
  \<open>[addr, addr + len)\<close> carries the requested flags, every other address keeps its own.
\<close>

definition set_protection :: "size_t \<Rightarrow> size_t \<Rightarrow> c_int \<Rightarrow> machine \<Rightarrow> machine" where
  "set_protection addr len prot m =
     m\<lparr>protection := (\<lambda>a. if unat addr \<le> unat a \<and> unat a < unat addr + unat len
                             then prot else protection m a)\<rparr>"

text \<open>
  \<^verbatim>\<open>mprotect\<close>: the call is recorded; the operating system's answer decides. On 0 the
  protection is changed; on any other value nothing is changed and \<^verbatim>\<open>errno\<close> is set.
\<close>

definition mprotect :: "env \<Rightarrow> size_t \<Rightarrow> size_t \<Rightarrow> c_int \<Rightarrow> proc \<Rightarrow> c_int \<times> proc" where
  "mprotect e addr len prot s =
     (let (ret, err) = sys_mprotect e addr len prot;
          s' = s\<lparr>trace := trace s @ [Mprotect addr len prot]\<rparr>
      in if ret = 0 then (ret, s'\<lparr>mach := set_protection addr len prot (mach s')\<rparr>)
         else (ret, s'\<lparr>errno := err\<rparr>))"

text \<open>The call \<^verbatim>\<open>f()\<close> through the function pointer: recorded, then the bytes decide.\<close>

definition call :: "env \<Rightarrow> size_t \<Rightarrow> proc \<Rightarrow> call_outcome \<times> proc" where
  "call e f s = (payload e, s\<lparr>trace := trace s @ [Call f]\<rparr>)"

subsection \<open>The page-boundary mask\<close>

text \<open>
  \<^verbatim>\<open>~0xFFF\<close> is computed in \<^verbatim>\<open>int\<close>; the operator \<^verbatim>\<open>&\<close> then converts it to
  \<^verbatim>\<open>size_t\<close>, which sign-extends it.
\<close>

definition page_mask :: size_t where
  "page_mask = scast (NOT (0xFFF :: c_int))"

text \<open>\<^verbatim>\<open>region = region & (~0xFFF);\<close>\<close>

definition page_base :: "size_t \<Rightarrow> size_t" where
  "page_base region = region AND page_mask"

subsection \<open>\<^verbatim>\<open>main\<close>\<close>

text \<open>
  The result is the exit status of the process, \<open>None\<close> when the called bytes neither
  return nor exit, and the final state. Control that falls off the end of \<^verbatim>\<open>main\<close>
  returns 0. When the called bytes end the process, or neither return nor exit, nothing
  more of the program runs, and what waits in the buffer of \<^verbatim>\<open>stdout\<close> stays there.
\<close>

definition main :: "env \<Rightarrow> proc \<Rightarrow> c_int option \<times> proc" where
  "main e s0 =
     (let s1 = printf e ''main @ %p\<newline>'' [Ptr (main_addr e)] s0;
          s2 = printf e ''instructions @ %p\<newline>'' [Ptr (instructions e)] s1;
          region = instructions e;
          region = page_base region;
          s3 = printf e ''Page start: %p\<newline>'' [Ptr region] s2;
          s4 = printf e ''making instructions executable...\<newline>'' [] s3;
          (ret, s5) = mprotect e region 0x1000 (PROT_READ e OR PROT_EXEC e) s4
      in if ret \<noteq> 0 then
           (let s6 = printf e ''mprotect failed: error %s\<newline>''
                       [Str (strerror e (errno s5))] s5
            in exit 1 s6)
         else
           (let f = instructions e;
                s6 = printf e ''jumping...\<newline>'' [] s5;
                (outcome, s7) = call e f s6
            in case outcome of
                 Returns \<Rightarrow> exit 0 (printf e ''after jump\<newline>'' [] s7)
               | Exits status \<Rightarrow> (Some status, s7)
               | NoReturn \<Rightarrow> (None, s7)))"

text \<open>A fresh process: nothing traced, nothing buffered and nothing written yet.\<close>

definition start :: "machine \<Rightarrow> proc" where
  "start m = \<lparr>trace = [], stdout_buf = [], written = [], errno = 0, mach = m\<rparr>"

subsection \<open>Observations on a run\<close>

definition is_call :: "event \<Rightarrow> bool" where
  "is_call ev = (case ev of Call a \<Rightarrow> True | _ \<Rightarrow> False)"

definition is_mprotect :: "event \<Rightarrow> bool" where
  "is_mprotect ev = (case ev of Mprotect a l p \<Rightarrow> True | _ \<Rightarrow> False)"

definition is_printf :: "event \<Rightarrow> bool" where
  "is_printf ev = (case ev of Printf fmt args \<Rightarrow> True | _ \<Rightarrow> False)"

text \<open>The formats of the calls of \<^verbatim>\<open>printf\<close> in a trace, in order.\<close>

definition formats :: "event list \<Rightarrow> string list" where
  "formats evs = concat (map (\<lambda>ev. case ev of Printf fmt args \<Rightarrow> [fmt] | _ \<Rightarrow> []) evs)"


text \<open>
  The answer of the operating system to the one call of \<^verbatim>\<open>mprotect\<close> that
  \<^verbatim>\<open>main\<close> makes: the value returned, and the \<^verbatim>\<open>errno\<close> of a failure.
\<close>

definition mprotect_answer :: "env \<Rightarrow> c_int \<times> c_int" where
  "mprotect_answer e =
     sys_mprotect e (page_base (instructions e)) 0x1000 (PROT_READ e OR PROT_EXEC e)"

subsection \<open>Sample platforms\<close>

text \<open>
  Concrete platforms to run the model on: a non-PIE x86-64 Linux layout with the flag
  values of Linux and standard output on a terminal, where the operating system grants
  the request and the bytes end the process with status 0; the same where the request is
  denied with \<^verbatim>\<open>EACCES\<close> (13); the same where the bytes return to their caller; one
  whose literal starts six bytes before a page boundary; and one whose standard output
  is a pipe.
\<close>

definition machine0 :: machine where
  "machine0 = \<lparr>memory = (\<lambda>a. 0), protection = (\<lambda>a. 1)\<rparr>"

definition env_granted :: env where
  "env_granted =
     \<lparr>main_addr = 0x401136, instructions = 0x402010, PROT_READ = 1, PROT_EXEC = 4,
      sys_mprotect = (\<lambda>addr len prot. (0, 0)),
      strerror = (\<lambda>n. if n = 13 then ''Permission denied'' else ''Unknown error''),
      payload = Exits 0,
      stdout_mode = LineBuffered\<rparr>"

definition env_denied :: env where
  "env_denied = env_granted\<lparr>sys_mprotect := (\<lambda>addr len prot. (- 1, 13))\<rparr>"


definition env_straddling :: env where
  "env_straddling = env_granted\<lparr>instructions := 0x401FFA\<rparr>"


section \<open>Properties\<close>

subsection \<open>The mask and the page base\<close>

lemma page_mask_value: "page_mask = 0xFFFFFFFFFFFFF000"
  by (simp add: page_mask_def)

lemma page_mask_not: "page_mask = NOT (mask 12)"
  by (simp add: page_mask_value mask_eq_exp_minus_1)

lemma page_base_bits: "bit (page_base a) n \<longleftrightarrow> 12 \<le> n \<and> bit a n"
  by (auto simp add: page_base_def page_mask_not bit_simps dest: bit_imp_le_length)

lemma page_base_shift: "page_base a = push_bit 12 (drop_bit 12 a)"
  by (rule bit_eqI) (auto simp add: page_base_bits bit_simps)

lemma page_base_low: "page_base a AND mask 12 = 0"
  by (rule bit_eqI) (auto simp add: bit_simps page_base_bits)

lemma unat_page_base: "unat (page_base a) = (unat a div 4096) * 4096"
proof -
  have le: "(unat a div 4096) * 4096 \<le> unat a" by simp
  have lt: "unat a < 2 ^ 64" using unsigned_less [of a] by simp
  have "unat (page_base a) = take_bit 64 (push_bit 12 (unat (drop_bit 12 a)))"
    by (simp add: page_base_shift unsigned_push_bit_eq)
  also have "\<dots> = take_bit 64 ((unat a div 4096) * 4096)"
    by (simp add: unat_drop_bit_eq push_bit_eq_mult drop_bit_eq_div unat_div)
  also have "\<dots> = (unat a div 4096) * 4096"
    using le lt by (simp add: take_bit_nat_eq_self_iff)
  finally show ?thesis .
qed

text \<open>
  C1. For every address \<open>a\<close> the page base \<open>p\<close> obtained by the masking satisfies
  \<open>p \<le> a < p + 4096\<close> (read as numbers, so that \<open>p + 4096\<close> does not wrap) and is a
  multiple of 4096; bit \<open>n\<close> of \<open>p\<close> is bit \<open>n\<close> of \<open>a\<close> for \<open>n \<ge> 12\<close> and is clear
  for \<open>n < 12\<close>.
\<close>

theorem page_base_contains_address:
  "unat (page_base a) \<le> unat a
   \<and> unat a < unat (page_base a) + 4096
   \<and> unat (page_base a) mod 4096 = 0
   \<and> page_base a \<le> a
   \<and> (\<forall>n. bit (page_base a) n \<longleftrightarrow> 12 \<le> n \<and> bit a n)"
proof -
  have "unat a = unat a div 4096 * 4096 + unat a mod 4096"
    by simp
  moreover have "unat a mod 4096 < 4096"
    by simp
  ultimately have "unat a < unat a div 4096 * 4096 + 4096"
    by linarith
  then show ?thesis
    by (simp add: unat_page_base page_base_bits word_le_nat_alt)
qed

text \<open>
  C7, as stated, at the address \<open>0x401FFA\<close>: the page base is \<open>0x401000\<close>, the
  region ends at \<open>0x402000\<close>, and the ten bytes end at \<open>0x402004\<close>.
\<close>

theorem page_region_misses_buffer_end:
  "\<not> (unat (page_base 0x401FFA) \<le> unat (0x401FFA :: size_t)
      \<and> unat (0x401FFA :: size_t) + 10 \<le> unat (page_base 0x401FFA) + 4096)"
  by (simp add: page_base_def page_mask_def)

text \<open>
  C7, amended. For every starting address \<open>a\<close> of the ten bytes, the page base is at
  most \<open>a\<close>; and the one region of 4096 bytes that starts at the page base holds all
  ten bytes exactly when \<open>a\<close> lies at most 4086 bytes into its page.
\<close>

theorem page_region_contains_buffer_iff:
  "unat (page_base a) \<le> unat a
   \<and> (unat a + 10 \<le> unat (page_base a) + 4096 \<longleftrightarrow> unat a mod 4096 \<le> 4086)"
proof -
  have "unat a = unat a div 4096 * 4096 + unat a mod 4096"
    by simp
  then show ?thesis
    unfolding unat_page_base by linarith
qed

theorem page_region_contains_buffer_iff_witness:
  "unat (page_base 0x402010) \<le> unat (0x402010 :: size_t)
   \<and> unat (0x402010 :: size_t) + 10 \<le> unat (page_base 0x402010) + 4096"
  using page_region_contains_buffer_iff [of "0x402010"] by simp

subsection \<open>The literal\<close>

text \<open>
  C6. The bytes of the literal \<^verbatim>\<open>instructions\<close> points to are the ten bytes
  \<open>0x48, 0x31, 0xFF, 0xB8, 0x3C, 0x00, 0x00, 0x00, 0x0F, 0x05\<close>, in this order; the array
  that stores them ends with the terminating zero of every C string literal.
\<close>

theorem instructions_bytes:
  "literal_bytes instructions_literal =
     Some [0x48, 0x31, 0xFF, 0xB8, 0x3C, 0x00, 0x00, 0x00, 0x0F, 0x05]
   \<and> map_option length (literal_bytes instructions_literal) = Some 10
   \<and> literal_object instructions_literal =
     Some ([0x48, 0x31, 0xFF, 0xB8, 0x3C, 0x00, 0x00, 0x00, 0x0F, 0x05] @ [0])"
  by (simp add: literal_object_def instructions_literal_def hex_digit_def)

subsection \<open>The two paths of \<^verbatim>\<open>main\<close>\<close>

lemma main_failure:
  assumes "fst (mprotect_answer e) \<noteq> 0"
  shows "main e (start m) =
    (Some 1,
     \<lparr>trace =
        [Printf ''main @ %p\<newline>'' [Ptr (main_addr e)],
         Printf ''instructions @ %p\<newline>'' [Ptr (instructions e)],
         Printf ''Page start: %p\<newline>'' [Ptr (page_base (instructions e))],
         Printf ''making instructions executable...\<newline>'' [],
         Mprotect (page_base (instructions e)) 0x1000 (PROT_READ e OR PROT_EXEC e),
         Printf ''mprotect failed: error %s\<newline>''
           [Str (strerror e (snd (mprotect_answer e)))]],
      stdout_buf = [],
      written =
        [(''main @ %p\<newline>'', [Ptr (main_addr e)]),
         (''instructions @ %p\<newline>'', [Ptr (instructions e)]),
         (''Page start: %p\<newline>'', [Ptr (page_base (instructions e))]),
         (''making instructions executable...\<newline>'', []),
         (''mprotect failed: error %s\<newline>'', [Str (strerror e (snd (mprotect_answer e)))])],
      errno = snd (mprotect_answer e),
      mach = m\<rparr>)"
proof (cases "mprotect_answer e")
  case (Pair ret err)
  with assms have "ret \<noteq> 0" by simp
  with Pair show ?thesis
    by (cases "stdout_mode e")
       (simp_all add: main_def mprotect_answer_def mprotect_def printf_def fflush_def
          exit_def ends_line_def start_def Let_def)
qed

lemma main_success:
  assumes "fst (mprotect_answer e) = 0"
  shows "main e (start m) =
    (case payload e of Returns \<Rightarrow> Some 0 | Exits status \<Rightarrow> Some status | NoReturn \<Rightarrow> None,
     \<lparr>trace =
        [Printf ''main @ %p\<newline>'' [Ptr (main_addr e)],
         Printf ''instructions @ %p\<newline>'' [Ptr (instructions e)],
         Printf ''Page start: %p\<newline>'' [Ptr (page_base (instructions e))],
         Printf ''making instructions executable...\<newline>'' [],
         Mprotect (page_base (instructions e)) 0x1000 (PROT_READ e OR PROT_EXEC e),
         Printf ''jumping...\<newline>'' [],
         Call (instructions e)]
        @ (case payload e of Returns \<Rightarrow> [Printf ''after jump\<newline>'' []] | _ \<Rightarrow> []),
      stdout_buf =
        (if payload e \<noteq> Returns \<and> stdout_mode e = FullyBuffered
         then [(''main @ %p\<newline>'', [Ptr (main_addr e)]),
         (''instructions @ %p\<newline>'', [Ptr (instructions e)]),
         (''Page start: %p\<newline>'', [Ptr (page_base (instructions e))]),
         (''making instructions executable...\<newline>'', []),
         (''jumping...\<newline>'', [])]
         else []),
      written =
        (if payload e \<noteq> Returns \<and> stdout_mode e = FullyBuffered then []
         else [(''main @ %p\<newline>'', [Ptr (main_addr e)]),
         (''instructions @ %p\<newline>'', [Ptr (instructions e)]),
         (''Page start: %p\<newline>'', [Ptr (page_base (instructions e))]),
         (''making instructions executable...\<newline>'', []),
         (''jumping...\<newline>'', [])]
              @ (case payload e of Returns \<Rightarrow> [(''after jump\<newline>'', [])] | _ \<Rightarrow> [])),
      errno = 0,
      mach = set_protection (page_base (instructions e)) 0x1000
               (PROT_READ e OR PROT_EXEC e) m\<rparr>)"
proof (cases "mprotect_answer e")
  case (Pair ret err)
  with assms have "ret = 0" by simp
  with Pair show ?thesis
    by (cases "stdout_mode e"; cases "payload e")
       (simp_all add: main_def mprotect_answer_def mprotect_def printf_def fflush_def
          exit_def ends_line_def call_def start_def Let_def)
qed

lemma main_mach:
  "mach (snd (main e (start m))) =
     (if fst (mprotect_answer e) = 0
      then set_protection (page_base (instructions e)) 0x1000 (PROT_READ e OR PROT_EXEC e) m
      else m)"
  by (simp add: main_success main_failure split: call_outcome.splits)

lemma main_mprotect_calls:
  "filter is_mprotect (trace (snd (main e (start m)))) =
     [Mprotect (page_base (instructions e)) 0x1000 (PROT_READ e OR PROT_EXEC e)]"
  by (cases "fst (mprotect_answer e) = 0")
     (simp_all add: main_success main_failure is_mprotect_def split: call_outcome.splits)

text \<open>
  Where \<^verbatim>\<open>main\<close> returns, \<^verbatim>\<open>exit\<close> flushes \<^verbatim>\<open>stdout\<close>: whatever the buffering, every
  output of the run has been written when the process ends, and nothing is left in the
  buffer.
\<close>

lemma failure_output_written:
  assumes "fst (mprotect_answer e) \<noteq> 0"
  shows "written (snd (main e (start m))) =
           [(''main @ %p\<newline>'', [Ptr (main_addr e)]),
            (''instructions @ %p\<newline>'', [Ptr (instructions e)]),
            (''Page start: %p\<newline>'', [Ptr (page_base (instructions e))]),
            (''making instructions executable...\<newline>'', []),
            (''mprotect failed: error %s\<newline>'',
               [Str (strerror e (snd (mprotect_answer e)))])]
       \<and> stdout_buf (snd (main e (start m))) = []"
  by (simp add: main_failure [OF assms])

lemma returning_output_written:
  assumes "fst (mprotect_answer e) = 0" and "payload e = Returns"
  shows "written (snd (main e (start m))) =
           [(''main @ %p\<newline>'', [Ptr (main_addr e)]),
            (''instructions @ %p\<newline>'', [Ptr (instructions e)]),
            (''Page start: %p\<newline>'', [Ptr (page_base (instructions e))]),
            (''making instructions executable...\<newline>'', []),
            (''jumping...\<newline>'', []),
            (''after jump\<newline>'', [])]
       \<and> stdout_buf (snd (main e (start m))) = []"
  using assms(2) by (simp add: main_success [OF assms(1)])

lemma env_denied_answer: "mprotect_answer env_denied = (- 1, 13)"
  by (simp add: mprotect_answer_def env_denied_def env_granted_def)

lemma env_granted_answer: "mprotect_answer env_granted = (0, 0)"
  by (simp add: mprotect_answer_def env_granted_def)



subsection \<open>The failure path\<close>



text \<open>
  C3. In every run in which \<^verbatim>\<open>mprotect\<close> returns a value other than 0, no call of
  \<^verbatim>\<open>printf\<close> has the format \<^verbatim>\<open>"jumping...\n"\<close>: the formats printed are the four of
  the setup and the failure line.
\<close>

theorem mprotect_failure_never_jumps:
  assumes "fst (mprotect_answer e) \<noteq> 0"
  shows "''jumping...\<newline>'' \<notin> set (formats (trace (snd (main e (start m)))))
       \<and> formats (trace (snd (main e (start m)))) =
           [''main @ %p\<newline>'', ''instructions @ %p\<newline>'', ''Page start: %p\<newline>'',
            ''making instructions executable...\<newline>'', ''mprotect failed: error %s\<newline>'']"
  by (simp add: main_failure [OF assms] formats_def)

theorem mprotect_failure_never_jumps_witness:
  "fst (mprotect_answer env_denied) \<noteq> 0
   \<and> ''jumping...\<newline>'' \<notin> set (formats (trace (snd (main env_denied (start machine0)))))"
proof -
  have h: "fst (mprotect_answer env_denied) \<noteq> 0"
    by (simp add: env_denied_answer)
  show ?thesis
    using h mprotect_failure_never_jumps [OF h, of machine0] by simp
qed

subsection \<open>The success path\<close>

text \<open>
  C4. In every run in which \<^verbatim>\<open>mprotect\<close> returns 0, whatever the called bytes do,
  exactly one call through the function pointer is made, and its target is the address
  held in \<^verbatim>\<open>instructions\<close>.
\<close>

theorem mprotect_success_calls_once:
  assumes "fst (mprotect_answer e) = 0"
  shows "filter is_call (trace (snd (main e (start m)))) = [Call (instructions e)]"
  by (simp add: main_success [OF assms] is_call_def split: call_outcome.splits)

theorem mprotect_success_calls_once_witness:
  "fst (mprotect_answer env_granted) = 0
   \<and> filter is_call (trace (snd (main env_granted (start machine0)))) = [Call 0x402010]"
proof -
  have h: "fst (mprotect_answer env_granted) = 0"
    by (simp add: env_granted_answer)
  have "instructions env_granted = 0x402010"
    by (simp add: env_granted_def)
  then show ?thesis
    using h mprotect_success_calls_once [OF h, of machine0] by simp
qed






subsection \<open>Memory and protection\<close>


text \<open>
  On the platform whose literal starts at \<open>0x401FFA\<close>, a granted run leaves the first
  six bytes of the buffer readable and executable and the seventh, at \<open>0x402000\<close>, as
  it was.
\<close>

lemma straddling_buffer_protection:
  "protection (mach (snd (main env_straddling (start machine0)))) 0x401FFF = 5
   \<and> protection (mach (snd (main env_straddling (start machine0)))) 0x402000 = 1"
proof -
  have "mprotect_answer env_straddling = (0, 0)"
    by (simp add: mprotect_answer_def env_straddling_def env_granted_def)
  moreover have "page_base (instructions env_straddling) = 0x401000"
    by (simp add: env_straddling_def env_granted_def page_base_def page_mask_def)
  moreover have "PROT_READ env_straddling OR PROT_EXEC env_straddling = 5"
    by (simp add: env_straddling_def env_granted_def)
  ultimately show ?thesis
    by (simp add: main_mach set_protection_def machine0_def)
qed

text \<open>
  C10. In every run the one call of \<^verbatim>\<open>mprotect\<close> passes the page base, which is a
  multiple of 4096 (its low twelve bits are clear), and the length \<open>0x1000\<close>, which is
  4096: a misaligned address never reaches the call.
\<close>

theorem mprotect_arguments_aligned:
  "filter is_mprotect (trace (snd (main e (start m)))) =
     [Mprotect (page_base (instructions e)) 0x1000 (PROT_READ e OR PROT_EXEC e)]
   \<and> unat (page_base (instructions e)) mod 4096 = 0
   \<and> page_base (instructions e) AND 0xFFF = 0
   \<and> unat (0x1000 :: size_t) = 4096"
proof -
  have "page_base (instructions e) AND 0xFFF = 0"
    using page_base_low [of "instructions e"] by (simp add: mask_eq_exp_minus_1)
  then show ?thesis
    by (simp add: main_mprotect_calls unat_page_base)
qed

end
